theory Spec2Isabelle
  imports Complex_Main "HOL-Library.Sublist" "HOL-Library.AList"
begin

section \<open>Python values\<close>

text \<open>
  A Python \<open>str\<close> is a \<open>string\<close>, one \<open>char\<close> per code point (the code points
  below 256). The values that travel between the modules are \<open>None\<close>, booleans,
  integers, strings, lists and dictionaries; a dictionary is an association list, which keeps the
  insertion order that \<open>dict(row)\<close> and \<open>json.dumps\<close> observe.
\<close>

datatype pyval =
    PNone
  | PBool bool
  | PInt int
  | PStr string
  | PList "pyval list"
  | PDict "(string \<times> pyval) list"

text \<open>Truth value of a Python object, as \<open>if x:\<close> and \<open>not x\<close> test it.\<close>

fun truthy :: "pyval \<Rightarrow> bool" where
  "truthy PNone = False"
| "truthy (PBool b) = b"
| "truthy (PInt i) = (i \<noteq> 0)"
| "truthy (PStr s) = (s \<noteq> [])"
| "truthy (PList xs) = (xs \<noteq> [])"
| "truthy (PDict kvs) = (kvs \<noteq> [])"

subsection \<open>Strings\<close>

text \<open>
  \<open>str.isspace\<close> on the modelled code points: the whitespace that \<open>str.strip()\<close> and
  the pattern \<open>\s\<close> remove.
\<close>

definition py_isspace :: "char \<Rightarrow> bool" where
  "py_isspace c =
     (let n = (of_char c :: nat) in (9 \<le> n \<and> n \<le> 13) \<or> (28 \<le> n \<and> n \<le> 32) \<or> n = 133 \<or> n = 160)"

text \<open>\<open>s.strip()\<close>.\<close>

definition strip :: "string \<Rightarrow> string" where
  "strip s = rev (dropWhile py_isspace (rev (dropWhile py_isspace s)))"

text \<open>\<open>sep.join(xs)\<close>.\<close>

fun intercalate :: "'a list \<Rightarrow> 'a list list \<Rightarrow> 'a list" where
  "intercalate sep [] = []"
| "intercalate sep [x] = x"
| "intercalate sep (x # y # ys) = x @ sep @ intercalate sep (y # ys)"

text \<open>\<open>s.split(c)\<close> for a separator of one character: never the empty list.\<close>

fun split_on :: "char \<Rightarrow> string \<Rightarrow> string list" where
  "split_on sep [] = [[]]"
| "split_on sep (c # cs) =
     (if c = sep then [] # split_on sep cs
      else (case split_on sep cs of [] \<Rightarrow> [[c]] | w # ws \<Rightarrow> (c # w) # ws))"

text \<open>\<open>s.lower()\<close> on the modelled code points.\<close>

definition lower_char :: "char \<Rightarrow> char" where
  "lower_char c =
     (let n = (of_char c :: nat) in
      if (65 \<le> n \<and> n \<le> 90) \<or> (192 \<le> n \<and> n \<le> 222 \<and> n \<noteq> 215) then char_of (n + 32) else c)"

definition lower :: "string \<Rightarrow> string" where
  "lower s = map lower_char s"

text \<open>\<open>str(i)\<close> for an integer: its decimal digits.\<close>

function digits :: "nat \<Rightarrow> string" where
  "digits n = (if n < 10 then [char_of (48 + n)] else digits (n div 10) @ [char_of (48 + n mod 10)])"
  by pat_completeness auto
termination
  by (relation "measure (\<lambda>n. n)") auto

definition show_int :: "int \<Rightarrow> string" where
  "show_int i = (if i < 0 then CHR ''-'' # digits (nat (- i)) else digits (nat i))"

text \<open>The exceptions that the modelled functions raise or catch.\<close>

datatype error =
    ValueError string
  | TypeError
  | AttributeError
  | JSONDecodeError
  | RecursionError
  | OverflowError
  | OperationalError
  | RemoteFailure string

section \<open>storage.py\<close>

subsection \<open>The \<open>json\<close> module\<close>

text \<open>
  \<open>json.dumps\<close> and \<open>json.loads\<close> belong to the Python standard library. The
  storage functions take them as a parameter: \<open>dumps\<close> is \<open>json.dumps(v)\<close>,
  \<open>dumps_indent\<close> is \<open>json.dumps(v, indent=2, default=str)\<close>, and \<open>loads s\<close> is
  the value of \<open>json.loads(s)\<close> or the exception it raises: \<open>JSONDecodeError\<close> for a
  text that is not JSON, but also \<open>RecursionError\<close> for a text nested too deeply and
  \<open>ValueError\<close> for an integer literal of too many digits.
\<close>

record json_module =
  dumps :: "pyval \<Rightarrow> string"
  dumps_indent :: "pyval \<Rightarrow> string"
  loads :: "string \<Rightarrow> error + pyval"

text \<open>\<open>json.loads(x)\<close> on a Python object: only a \<open>str\<close> is accepted.\<close>

fun json_loads :: "json_module \<Rightarrow> pyval \<Rightarrow> error + pyval" where
  "json_loads J (PStr s) = loads J s"
| "json_loads J v = Inl TypeError"

subsection \<open>The table \<open>summaries\<close>\<close>

text \<open>
  One row of the table created by \<open>init_db\<close>: \<open>id INTEGER PRIMARY KEY AUTOINCREMENT\<close>
  and eight nullable text columns (\<open>None\<close> is SQL \<open>NULL\<close>).
\<close>

record summaries_row =
  col_id :: int
  col_filename :: "string option"
  col_original_text :: "string option"
  col_summary :: "string option"
  col_key_points :: "string option"
  col_mode :: "string option"
  col_length :: "string option"
  col_file_type :: "string option"
  col_created_at :: "string option"

text \<open>
  The database file: the rows of \<open>summaries\<close> in rowid order, and the counter that
  \<open>AUTOINCREMENT\<close> keeps in \<open>sqlite_sequence\<close> (the largest rowid handed out so far,
  0 before the first insert). I/O errors of the driver are outside the model.
\<close>

record database =
  summaries :: "summaries_row list"
  sqlite_sequence :: nat

text \<open>
  The values of an SQLite \<open>INTEGER\<close>. Binding a Python integer outside this range as a
  parameter of \<open>cursor.execute\<close> raises \<open>OverflowError\<close>.
\<close>

definition sqlite_int :: "int \<Rightarrow> bool" where
  "sqlite_int i = (- (2 ^ 63) \<le> i \<and> i \<le> 2 ^ 63 - 1)"

text \<open>\<open>CREATE TABLE IF NOT EXISTS\<close>: a missing table is the empty table.\<close>

definition init_db :: "database \<Rightarrow> database" where
  "init_db db = db"

text \<open>The largest rowid used so far: \<open>AUTOINCREMENT\<close> takes the rowid one above it.\<close>

definition largest_rowid :: "database \<Rightarrow> int" where
  "largest_rowid db = fold max (map col_id (summaries db)) (int (sqlite_sequence db))"

definition next_rowid :: "database \<Rightarrow> int" where
  "next_rowid db = largest_rowid db + 1"

text \<open>
  \<open>save_summary\<close>; \<open>now\<close> is the value of \<open>CURRENT_TIMESTAMP\<close> at the insert.
  Returns \<open>cursor.lastrowid\<close> and the database after the commit. Once the largest
  possible rowid has been used the insert fails (\<open>SQLITE_FULL\<close>) and \<open>cursor.execute\<close>
  raises \<open>OperationalError\<close>.
\<close>

definition save_summary ::
  "json_module \<Rightarrow> string \<Rightarrow> string \<Rightarrow> string \<Rightarrow> string \<Rightarrow> string list \<Rightarrow> string \<Rightarrow> string
     \<Rightarrow> string \<Rightarrow> database \<Rightarrow> error + int \<times> database" where
  "save_summary J now filename original_text summary key_points mode length' file_type db0 =
     (let db = init_db db0;
          summary_id = next_rowid db;
          new = \<lparr> col_id = summary_id,
                  col_filename = Some filename,
                  col_original_text = Some original_text,
                  col_summary = Some summary,
                  col_key_points = Some (dumps J (PList (map PStr key_points))),
                  col_mode = Some mode,
                  col_length = Some length',
                  col_file_type = Some file_type,
                  col_created_at = Some now \<rparr>
      in if 2 ^ 63 - 1 \<le> largest_rowid db then Inl OperationalError
         else Inr (summary_id,
                   db\<lparr> summaries := summaries db @ [new], sqlite_sequence := nat summary_id \<rparr>))"

text \<open>\<open>dict(row)\<close> for a row of \<open>SELECT *\<close>: the columns in the order of the schema.\<close>

definition sql_text :: "string option \<Rightarrow> pyval" where
  "sql_text c = (case c of None \<Rightarrow> PNone | Some s \<Rightarrow> PStr s)"

definition dict_of_row :: "summaries_row \<Rightarrow> (string \<times> pyval) list" where
  "dict_of_row r =
     [(''id'', PInt (col_id r)),
      (''filename'', sql_text (col_filename r)),
      (''original_text'', sql_text (col_original_text r)),
      (''summary'', sql_text (col_summary r)),
      (''key_points'', sql_text (col_key_points r)),
      (''mode'', sql_text (col_mode r)),
      (''length'', sql_text (col_length r)),
      (''file_type'', sql_text (col_file_type r)),
      (''created_at'', sql_text (col_created_at r))]"

text \<open>
  \<open>dict_from_row\<close>: the \<open>key_points\<close> entry is decoded when it is present and truthy;
  only \<open>JSONDecodeError\<close> is caught, any other exception propagates.
\<close>

definition dict_from_row :: "json_module \<Rightarrow> summaries_row \<Rightarrow> error + (string \<times> pyval) list" where
  "dict_from_row J row =
     (let data = dict_of_row row in
      case map_of data ''key_points'' of
        None \<Rightarrow> Inr data
      | Some kp \<Rightarrow>
          if truthy kp then
            (case json_loads J kp of
               Inr v \<Rightarrow> Inr (AList.update ''key_points'' v data)
             | Inl JSONDecodeError \<Rightarrow> Inr (AList.update ''key_points'' (PList []) data)
             | Inl e \<Rightarrow> Inl e)
          else Inr data)"

text \<open>
  \<open>get_summary\<close>: \<open>cursor.execute\<close> raises \<open>OverflowError\<close> for an id that is not an
  SQLite integer; \<open>fetchone()\<close> is the first row with the id, \<open>None\<close> when there is
  none.
\<close>

definition get_summary :: "json_module \<Rightarrow> int \<Rightarrow> database \<Rightarrow> error + (string \<times> pyval) list option" where
  "get_summary J summary_id db0 =
     (let db = init_db db0 in
      if \<not> sqlite_int summary_id then Inl OverflowError
      else
        (case find (\<lambda>r. col_id r = summary_id) (summaries db) of
           None \<Rightarrow> Inr None
         | Some row \<Rightarrow> (case dict_from_row J row of Inl e \<Rightarrow> Inl e | Inr d \<Rightarrow> Inr (Some d))))"

text \<open>
  \<open>delete_summary\<close>: \<open>cursor.execute\<close> raises \<open>OverflowError\<close> for an id that is not
  an SQLite integer; otherwise \<open>cursor.rowcount > 0\<close> and the database after the commit.
\<close>

definition delete_summary :: "int \<Rightarrow> database \<Rightarrow> error + bool \<times> database" where
  "delete_summary summary_id db0 =
     (let db = init_db db0 in
      if \<not> sqlite_int summary_id then Inl OverflowError
      else
        (let rowcount = length (filter (\<lambda>r. col_id r = summary_id) (summaries db));
             deleted = (rowcount > 0)
         in Inr (deleted,
                 db\<lparr> summaries := filter (\<lambda>r. col_id r \<noteq> summary_id) (summaries db) \<rparr>)))"

text \<open>
  \<open>export_summary\<close>. The plain-text rendering (the \<open>f\<close>-strings over the record) is the
  parameter \<open>render_txt\<close>; the JSON branch is \<open>json.dumps(summary, indent=2, default=str)\<close>.
\<close>

definition export_summary ::
  "json_module \<Rightarrow> ((string \<times> pyval) list \<Rightarrow> error + string) \<Rightarrow> int \<Rightarrow> string \<Rightarrow> database
     \<Rightarrow> error + string option" where
  "export_summary J render_txt summary_id format db =
     (case get_summary J summary_id db of
        Inl e \<Rightarrow> Inl e
      | Inr None \<Rightarrow> Inr None
      | Inr (Some summary) \<Rightarrow>
          if \<not> truthy (PDict summary) then Inr None
          else if format = ''json'' then Inr (Some (dumps_indent J (PDict summary)))
          else (case render_txt summary of Inl e \<Rightarrow> Inl e | Inr s \<Rightarrow> Inr (Some s)))"

subsection \<open>What a saved record is read back as\<close>

text \<open>
  The six structured fields of a record, in the order
  \<open>filename, summary, key_points, mode, length, file_type\<close>.
\<close>

definition structured_fields :: "(string \<times> pyval) list \<Rightarrow> pyval option list" where
  "structured_fields d =
     map (map_of d) [''filename'', ''summary'', ''key_points'', ''mode'', ''length'', ''file_type'']"

text \<open>
  The dictionary expected from \<open>get_summary\<close> for the arguments of a \<open>save_summary\<close>
  that returned \<open>summary_id\<close>: every argument under its column name, \<open>key_points\<close> as the
  list that was passed.
\<close>

definition saved_record ::
  "int \<Rightarrow> string \<Rightarrow> string \<Rightarrow> string \<Rightarrow> string \<Rightarrow> string list \<Rightarrow> string \<Rightarrow> string \<Rightarrow> string
     \<Rightarrow> (string \<times> pyval) list" where
  "saved_record summary_id now filename original_text summary key_points mode length' file_type =
     [(''id'', PInt summary_id),
      (''filename'', PStr filename),
      (''original_text'', PStr original_text),
      (''summary'', PStr summary),
      (''key_points'', PList (map PStr key_points)),
      (''mode'', PStr mode),
      (''length'', PStr length'),
      (''file_type'', PStr file_type),
      (''created_at'', PStr now)]"

text \<open>The \<open>key_points\<close> entry of what \<open>get_summary\<close> returned, when it returned a record.\<close>

definition key_points_of :: "error + (string \<times> pyval) list option \<Rightarrow> pyval option" where
  "key_points_of r = (case r of Inr (Some d) \<Rightarrow> map_of d ''key_points'' | _ \<Rightarrow> None)"

subsection \<open>A reference codec for the \<open>json\<close> parameter\<close>

text \<open>
  A printer and a parser for the JSON fragment without floating-point numbers, written
  after \<open>json.dumps\<close> (separators \<open>", "\<close> and \<open>": "\<close>, \<open>ensure_ascii\<close>) and
  \<open>json.loads\<close>. It instantiates the \<open>json\<close> parameter on concrete inputs; it has no
  limit on the depth of nesting or on the length of a number, so the only exception of
  its \<open>loads\<close> is \<open>JSONDecodeError\<close>.
\<close>

definition hex_digit :: "nat \<Rightarrow> char" where
  "hex_digit d = (if d < 10 then char_of (48 + d) else char_of (87 + d))"

definition escape_char :: "char \<Rightarrow> string" where
  "escape_char c =
     (if c = CHR 0x22 then [CHR 0x5C, CHR 0x22]
      else if c = CHR 0x5C then [CHR 0x5C, CHR 0x5C]
      else if c = CHR 0x0A then [CHR 0x5C, CHR ''n'']
      else if c = CHR 0x0D then [CHR 0x5C, CHR ''r'']
      else if c = CHR 0x09 then [CHR 0x5C, CHR ''t'']
      else if c = CHR 0x08 then [CHR 0x5C, CHR ''b'']
      else if c = CHR 0x0C then [CHR 0x5C, CHR ''f'']
      else if (of_char c :: nat) < 32 \<or> 126 < (of_char c :: nat)
        then [CHR 0x5C, CHR ''u'', CHR ''0'', CHR ''0'',
              hex_digit ((of_char c :: nat) div 16), hex_digit ((of_char c :: nat) mod 16)]
      else [c])"

definition quote_str :: "string \<Rightarrow> string" where
  "quote_str s = CHR 0x22 # concat (map escape_char s) @ [CHR 0x22]"

fun ref_dumps :: "pyval \<Rightarrow> string" where
  "ref_dumps PNone = ''null''"
| "ref_dumps (PBool b) = (if b then ''true'' else ''false'')"
| "ref_dumps (PInt i) = show_int i"
| "ref_dumps (PStr s) = quote_str s"
| "ref_dumps (PList xs) = ''['' @ intercalate '', '' (map ref_dumps xs) @ '']''"
| "ref_dumps (PDict kvs) =
     ''{'' @ intercalate '', '' (map (\<lambda>kv. quote_str (fst kv) @ '': '' @ ref_dumps (snd kv)) kvs) @ ''}''"

fun indent_items :: "string \<Rightarrow> string list \<Rightarrow> string" where
  "indent_items pad [] = []"
| "indent_items pad [x] = pad @ x"
| "indent_items pad (x # y # ys) = pad @ x @ [CHR '','', CHR 0x0A] @ indent_items pad (y # ys)"

fun ref_dumps_indent :: "nat \<Rightarrow> pyval \<Rightarrow> string" where
  "ref_dumps_indent lvl PNone = ''null''"
| "ref_dumps_indent lvl (PBool b) = (if b then ''true'' else ''false'')"
| "ref_dumps_indent lvl (PInt i) = show_int i"
| "ref_dumps_indent lvl (PStr s) = quote_str s"
| "ref_dumps_indent lvl (PList xs) =
     (if xs = [] then ''[]''
      else [CHR ''['', CHR 0x0A]
        @ indent_items (replicate (2 * Suc lvl) CHR '' '') (map (ref_dumps_indent (Suc lvl)) xs)
        @ [CHR 0x0A] @ replicate (2 * lvl) CHR '' '' @ '']'')"
| "ref_dumps_indent lvl (PDict kvs) =
     (if kvs = [] then ''{}''
      else [CHR ''{'', CHR 0x0A]
        @ indent_items (replicate (2 * Suc lvl) CHR '' '')
            (map (\<lambda>kv. quote_str (fst kv) @ '': '' @ ref_dumps_indent (Suc lvl) (snd kv)) kvs)
        @ [CHR 0x0A] @ replicate (2 * lvl) CHR '' '' @ ''}'')"

definition json_space :: "char \<Rightarrow> bool" where
  "json_space c = (c = CHR '' '' \<or> c = CHR 0x09 \<or> c = CHR 0x0A \<or> c = CHR 0x0D)"

definition skip_ws :: "string \<Rightarrow> string" where
  "skip_ws s = dropWhile json_space s"

definition hex_value :: "char \<Rightarrow> nat option" where
  "hex_value c =
     (let n = (of_char c :: nat) in
      if 48 \<le> n \<and> n \<le> 57 then Some (n - 48)
      else if 97 \<le> n \<and> n \<le> 102 then Some (n - 87)
      else if 65 \<le> n \<and> n \<le> 70 then Some (n - 55)
      else None)"

definition unescape :: "char \<Rightarrow> char option" where
  "unescape e =
     (if e = CHR 0x22 \<or> e = CHR 0x5C \<or> e = CHR ''/'' then Some e
      else if e = CHR ''n'' then Some (CHR 0x0A)
      else if e = CHR ''r'' then Some (CHR 0x0D)
      else if e = CHR ''t'' then Some (CHR 0x09)
      else if e = CHR ''b'' then Some (CHR 0x08)
      else if e = CHR ''f'' then Some (CHR 0x0C)
      else None)"

fun parse_string :: "nat \<Rightarrow> string \<Rightarrow> (string \<times> string) option" where
  "parse_string 0 s = None"
| "parse_string (Suc n) [] = None"
| "parse_string (Suc n) (c # cs) =
     (if c = CHR 0x22 then Some ([], cs)
      else if c = CHR 0x5C then
        (case cs of
           [] \<Rightarrow> None
         | e # r \<Rightarrow>
             if e = CHR ''u'' then
               (case r of
                  a # b # h # l # r' \<Rightarrow>
                    (case (hex_value a, hex_value b, hex_value h, hex_value l) of
                       (Some 0, Some 0, Some x, Some y) \<Rightarrow>
                         map_option (\<lambda>(t, rest). (char_of (16 * x + y) # t, rest)) (parse_string n r')
                     | _ \<Rightarrow> None)
                | _ \<Rightarrow> None)
             else
               (case unescape e of
                  None \<Rightarrow> None
                | Some d \<Rightarrow> map_option (\<lambda>(t, rest). (d # t, rest)) (parse_string n r)))
      else if (of_char c :: nat) < 32 then None
      else map_option (\<lambda>(t, rest). (c # t, rest)) (parse_string n cs))"

definition is_digit :: "char \<Rightarrow> bool" where
  "is_digit c = (48 \<le> (of_char c :: nat) \<and> (of_char c :: nat) \<le> 57)"

definition digits_value :: "string \<Rightarrow> nat" where
  "digits_value ds = foldl (\<lambda>acc d. 10 * acc + ((of_char d :: nat) - 48)) 0 ds"

definition parse_nat :: "string \<Rightarrow> (nat \<times> string) option" where
  "parse_nat s =
     (let ds = takeWhile is_digit s; r = dropWhile is_digit s in
      if ds = [] \<or> (length ds > 1 \<and> hd ds = CHR ''0'') then None
      else if r \<noteq> [] \<and> (hd r = CHR ''.'' \<or> hd r = CHR ''e'' \<or> hd r = CHR ''E'') then None
      else Some (digits_value ds, r))"

definition parse_literal :: "string \<Rightarrow> (pyval \<times> string) option" where
  "parse_literal s =
     (if take 4 s = ''null'' then Some (PNone, drop 4 s)
      else if take 4 s = ''true'' then Some (PBool True, drop 4 s)
      else if take 5 s = ''false'' then Some (PBool False, drop 5 s)
      else if take 1 s = ''-'' then map_option (\<lambda>(n, r). (PInt (- int n), r)) (parse_nat (drop 1 s))
      else map_option (\<lambda>(n, r). (PInt (int n), r)) (parse_nat s))"

fun parse_value :: "nat \<Rightarrow> string \<Rightarrow> (pyval \<times> string) option"
  and parse_items :: "nat \<Rightarrow> string \<Rightarrow> (pyval list \<times> string) option"
  and parse_members :: "nat \<Rightarrow> string \<Rightarrow> ((string \<times> pyval) list \<times> string) option" where
  "parse_value 0 s = None"
| "parse_value (Suc n) s =
     (case skip_ws s of
        [] \<Rightarrow> None
      | c # cs \<Rightarrow>
          if c = CHR 0x22 then map_option (\<lambda>(t, r). (PStr t, r)) (parse_string (Suc (length cs)) cs)
          else if c = CHR ''['' then
            (case skip_ws cs of
               [] \<Rightarrow> None
             | d # ds \<Rightarrow> if d = CHR '']'' then Some (PList [], ds)
                 else map_option (\<lambda>(xs, r). (PList xs, r)) (parse_items n cs))
          else if c = CHR ''{'' then
            (case skip_ws cs of
               [] \<Rightarrow> None
             | d # ds \<Rightarrow> if d = CHR ''}'' then Some (PDict [], ds)
                 else map_option (\<lambda>(kvs, r). (PDict kvs, r)) (parse_members n cs))
          else parse_literal (c # cs))"
| "parse_items 0 s = None"
| "parse_items (Suc n) s =
     (case parse_value n s of
        None \<Rightarrow> None
      | Some (v, r) \<Rightarrow>
          (case skip_ws r of
             [] \<Rightarrow> None
           | d # ds \<Rightarrow>
               if d = CHR '']'' then Some ([v], ds)
               else if d = CHR '','' then map_option (\<lambda>(vs, r'). (v # vs, r')) (parse_items n ds)
               else None))"
| "parse_members 0 s = None"
| "parse_members (Suc n) s =
     (case skip_ws s of
        [] \<Rightarrow> None
      | q # cs \<Rightarrow>
          if q \<noteq> CHR 0x22 then None
          else
            (case parse_string (Suc (length cs)) cs of
               None \<Rightarrow> None
             | Some (k, r) \<Rightarrow>
                 (case skip_ws r of
                    [] \<Rightarrow> None
                  | col # r1 \<Rightarrow>
                      if col \<noteq> CHR '':'' then None
                      else
                        (case parse_value n r1 of
                           None \<Rightarrow> None
                         | Some (v, r2) \<Rightarrow>
                             (case skip_ws r2 of
                                [] \<Rightarrow> None
                              | d # ds \<Rightarrow>
                                  if d = CHR ''}'' then Some ([(k, v)], ds)
                                  else if d = CHR '','' then
                                    map_option (\<lambda>(kvs, r'). ((k, v) # kvs, r')) (parse_members n ds)
                                  else None)))))"

definition ref_loads :: "string \<Rightarrow> pyval option" where
  "ref_loads s =
     (case parse_value (Suc (length s)) s of
        None \<Rightarrow> None
      | Some (v, r) \<Rightarrow> if skip_ws r = [] then Some v else None)"

definition reference_json :: json_module where
  "reference_json =
     \<lparr> dumps = ref_dumps, dumps_indent = ref_dumps_indent 0,
       loads = (\<lambda>s. case ref_loads s of None \<Rightarrow> Inl JSONDecodeError | Some v \<Rightarrow> Inr v) \<rparr>"

subsection \<open>Concrete databases\<close>

definition empty_db :: database where
  "empty_db = \<lparr> summaries = [], sqlite_sequence = 0 \<rparr>"

text \<open>A row whose \<open>key_points\<close> column holds the given text.\<close>

definition row_with_key_points :: "int \<Rightarrow> string option \<Rightarrow> summaries_row" where
  "row_with_key_points i kp =
     \<lparr> col_id = i, col_filename = Some ''notes.txt'', col_original_text = Some ''Alpha. Beta.'',
       col_summary = Some ''Alpha.'', col_key_points = kp, col_mode = Some ''local'',
       col_length = Some ''short'', col_file_type = Some ''text'',
       col_created_at = Some ''2024-01-01 10:00:00'' \<rparr>"

definition one_row_db :: "string option \<Rightarrow> database" where
  "one_row_db kp = \<lparr> summaries = [row_with_key_points 1 kp], sqlite_sequence = 1 \<rparr>"

text \<open>A save on the empty database, and the record it is read back as.\<close>

definition example_saved :: "error + int \<times> database" where
  "example_saved =
     save_summary reference_json ''2024-01-01 10:00:00'' ''notes.txt'' ''Alpha. Beta. Gamma.''
       ''Alpha. Beta.'' [''Alpha.'', ''Beta.''] ''local'' ''short'' ''text'' empty_db"

definition example_db :: database where
  "example_db = (case example_saved of Inr (summary_id, db) \<Rightarrow> db | Inl e \<Rightarrow> empty_db)"

definition example_record :: "(string \<times> pyval) list" where
  "example_record =
     saved_record 1 ''2024-01-01 10:00:00'' ''notes.txt'' ''Alpha. Beta. Gamma.''
       ''Alpha. Beta.'' [''Alpha.'', ''Beta.''] ''local'' ''short'' ''text''"

section \<open>summarizers.py\<close>

subsection \<open>The natural-language libraries\<close>

text \<open>
  The sentence splitter, the scores and the word normalisation come from libraries
  (\<open>nltk\<close>, \<open>sumy\<close>) and work on floating-point numbers; they are parameters.
  \<open>sentences_of text\<close> is the document of
  \<open>PlaintextParser.from_string(text, Tokenizer("english"))\<close>: its sentences in order, each
  as \<open>str(sentence)\<close>. \<open>salience sents i\<close> is the score the ranking gives to sentence
  \<open>i\<close>. \<open>terms_of text\<close> are the terms of the document of the text: its words that
  survive lower-casing, stopword removal and stemming, the dictionary that the topic
  extractor builds. \<open>topic_sentences sents k\<close> is the selection of \<open>k\<close> sentences
  by the singular value decomposition of the term-by-sentence matrix of a document that
  has terms; \<open>k\<close> is the count as the caller passed it.
\<close>

record nlp =
  sentences_of :: "string \<Rightarrow> string list"
  salience :: "string list \<Rightarrow> nat \<Rightarrow> real"
  terms_of :: "string \<Rightarrow> string list"
  topic_sentences :: "string list \<Rightarrow> int \<Rightarrow> string list"

text \<open>
  Modelled from the spec: the ranking summarizer that \<open>LocalSummarizer.summarize\<close> calls
  (\<open>TextRankSummarizer\<close>, line 70) is not in the sources. Section 4.5: it "selects the
  top-\<open>count\<close> sentences by salience score, re-sorts the selection by original index", and
  "if the document has fewer sentences than \<open>count\<close>, returns all sentences in original
  order"; section 4.3: "tie-break for equal scores: lower original sentence index ranks
  higher". The sort by descending score is stable, so equal scores keep the index order.
\<close>

definition text_rank_summarizer :: "nlp \<Rightarrow> string \<Rightarrow> nat \<Rightarrow> string list" where
  "text_rank_summarizer N text count =
     (let sents = sentences_of N text;
          ranked = sort_key (\<lambda>i. - salience N sents i) [0..<length sents];
          chosen = sort (take count ranked)
      in map ((!) sents) chosen)"

text \<open>
  The topic extractor that \<open>LocalSummarizer.extract_key_points\<close> calls (\<open>LsaSummarizer\<close>
  of the library \<open>sumy\<close>, line 99) is not in the sources. Its call builds the
  dictionary of the document's normalised words outside the stop words (\<open>terms_of\<close>)
  and returns the empty tuple when the dictionary is empty, that is, when no term
  survives; it has no fallback to the first sentences, which section 4.4 of the
  specification describes.
  With a dictionary it ranks the sentences by the decomposition, the parameter
  \<open>topic_sentences\<close>.
\<close>

definition lsa_summarizer :: "nlp \<Rightarrow> string \<Rightarrow> int \<Rightarrow> string list" where
  "lsa_summarizer N text k =
     (let sents = sentences_of N text in
      if terms_of N text = [] then []
      else topic_sentences N sents k)"

subsection \<open>\<open>LocalSummarizer\<close>\<close>

record local_summarizer =
  initialized :: bool
  nlp_ready :: bool

text \<open>\<open>_initialize\<close>: the download of the tokenizer data happens once per object.\<close>

definition initialize :: "local_summarizer \<Rightarrow> local_summarizer" where
  "initialize self = (if initialized self then self else self\<lparr> initialized := True \<rparr>)"

definition sentence_counts :: "(string \<times> nat) list" where
  "sentence_counts = [(''short'', 3), (''medium'', 5), (''long'', 8)]"

text \<open>\<open>sentence_counts.get(length, 5)\<close>.\<close>

definition sentence_count :: "string \<Rightarrow> nat" where
  "sentence_count length' = (case map_of sentence_counts length' of Some n \<Rightarrow> n | None \<Rightarrow> 5)"

text \<open>\<open>LocalSummarizer.summarize\<close>: the summary and the object after the call.\<close>

definition local_summarize ::
  "nlp \<Rightarrow> local_summarizer \<Rightarrow> string \<Rightarrow> string \<Rightarrow> string \<times> local_summarizer" where
  "local_summarize N self text length' =
     (let self' = initialize self;
          sentences = text_rank_summarizer N text (sentence_count length');
          summary = intercalate '' '' sentences
      in (if summary \<noteq> [] then summary else take 500 text @ ''...'', self'))"

text \<open>\<open>LocalSummarizer.extract_key_points\<close>.\<close>

definition local_extract_key_points ::
  "nlp \<Rightarrow> local_summarizer \<Rightarrow> string \<Rightarrow> int \<Rightarrow> string list \<times> local_summarizer" where
  "local_extract_key_points N self text max_points =
     (let self' = initialize self;
          sentences = lsa_summarizer N text max_points;
          key_points = map strip sentences
      in (if key_points \<noteq> [] then key_points else [take 200 text @ ''...''], self'))"

subsection \<open>\<open>OnlineSummarizer\<close>\<close>

text \<open>
  The hosted model is a parameter: \<open>generate_content model prompt\<close> is \<open>response.text\<close>,
  or the exception that the call raised. The bullet character U+2022 of the prompt and of
  the answer lies outside the modelled code points; \<open>bullet\<close> stands for it.
\<close>

record gemini =
  generate_content :: "string \<Rightarrow> string \<Rightarrow> error + string"
  bullet :: char

record online_summarizer =
  api_key :: "string option"
  model :: "string option"

definition api_key_required :: string where
  "api_key_required =
     ''API key is required for online summarization. Get one at https://aistudio.google.com/''"

text \<open>
  \<open>_get_model\<close>: the model, created on first use; without a key (\<open>None\<close> or the empty
  string) it raises \<open>ValueError\<close> and leaves the object unchanged.
\<close>

definition get_model :: "online_summarizer \<Rightarrow> error + string \<times> online_summarizer" where
  "get_model self =
     (case model self of
        None \<Rightarrow>
          if api_key self = None \<or> api_key self = Some [] then Inl (ValueError api_key_required)
          else Inr (''gemini-1.5-flash'', self\<lparr> model := Some ''gemini-1.5-flash'' \<rparr>)
      | Some m \<Rightarrow> Inr (m, self))"

definition length_instructions :: "(string \<times> string) list" where
  "length_instructions =
     [(''short'', ''in 2-3 sentences''),
      (''medium'', ''in 4-6 sentences''),
      (''long'', ''in a detailed paragraph of 8-10 sentences'')]"

definition summary_prompt :: "string \<Rightarrow> string \<Rightarrow> string" where
  "summary_prompt text length' =
     ''Summarize the following text ''
     @ (case map_of length_instructions length' of Some i \<Rightarrow> i | None \<Rightarrow> ''in 4-6 sentences'')
     @ ''. '' @ [CHR 0x0A]
     @ ''Focus on the main ideas and key information. Be concise and clear.'' @ [CHR 0x0A, CHR 0x0A]
     @ ''TEXT:'' @ [CHR 0x0A]
     @ take 10000 text @ [CHR 0x0A, CHR 0x0A]
     @ ''SUMMARY:''"

text \<open>\<open>OnlineSummarizer.summarize\<close>.\<close>

definition online_summarize ::
  "gemini \<Rightarrow> online_summarizer \<Rightarrow> string \<Rightarrow> string \<Rightarrow> (error + string) \<times> online_summarizer" where
  "online_summarize G self text length' =
     (case get_model self of
        Inl e \<Rightarrow> (Inl e, self)
      | Inr (m, self') \<Rightarrow>
          (case generate_content G m (summary_prompt text length') of
             Inl e \<Rightarrow> (Inl e, self')
           | Inr response_text \<Rightarrow> (Inr (strip response_text), self')))"

definition key_points_prompt :: "char \<Rightarrow> string \<Rightarrow> int \<Rightarrow> string" where
  "key_points_prompt b text max_points =
     ''Extract exactly '' @ show_int max_points @ '' key points from the following text.''
     @ [CHR 0x0A]
     @ ''Format each point as a clear, concise bullet point.'' @ [CHR 0x0A]
     @ ''Return ONLY the bullet points, one per line, starting with '' @ [CHR 0x22, b, CHR 0x22]
     @ ''.'' @ [CHR 0x0A, CHR 0x0A]
     @ ''TEXT:'' @ [CHR 0x0A]
     @ take 10000 text @ [CHR 0x0A, CHR 0x0A]
     @ ''KEY POINTS:''"

text \<open>The substitution of the pattern \<open>^[\<bullet>\-\*]\s*\<close> by the empty string.\<close>

definition remove_marker :: "char \<Rightarrow> string \<Rightarrow> string" where
  "remove_marker b line =
     (case line of
        [] \<Rightarrow> []
      | c # cs \<Rightarrow> if c = b \<or> c = CHR ''-'' \<or> c = CHR ''*'' then dropWhile py_isspace cs else line)"

text \<open>The loop over the lines of the answer; \<open>key_points\<close> is the list built so far.\<close>

fun collect_key_points :: "char \<Rightarrow> int \<Rightarrow> string list \<Rightarrow> string list \<Rightarrow> string list" where
  "collect_key_points b max_points [] key_points = key_points"
| "collect_key_points b max_points (line # lines) key_points =
     (let line' = remove_marker b (strip line) in
      collect_key_points b max_points lines
        (if line' \<noteq> [] \<and> int (length key_points) < max_points then key_points @ [line']
         else key_points))"

text \<open>\<open>OnlineSummarizer.extract_key_points\<close>.\<close>

definition online_extract_key_points ::
  "gemini \<Rightarrow> online_summarizer \<Rightarrow> string \<Rightarrow> int \<Rightarrow> (error + string list) \<times> online_summarizer" where
  "online_extract_key_points G self text max_points =
     (case get_model self of
        Inl e \<Rightarrow> (Inl e, self)
      | Inr (m, self') \<Rightarrow>
          (case generate_content G m (key_points_prompt (bullet G) text max_points) of
             Inl e \<Rightarrow> (Inl e, self')
           | Inr response_text \<Rightarrow>
               (let lines = split_on (CHR 0x0A) (strip response_text);
                    key_points = collect_key_points (bullet G) max_points lines []
                in (Inr (if key_points \<noteq> [] then key_points else [strip response_text]), self'))))"

subsection \<open>The factory and the shared contract\<close>

datatype summarizer = LocalSummarizer local_summarizer | OnlineSummarizer online_summarizer

text \<open>\<open>get_summarizer\<close>.\<close>

definition get_summarizer :: "string \<Rightarrow> string option \<Rightarrow> summarizer" where
  "get_summarizer mode key =
     (if mode = ''online'' then OnlineSummarizer \<lparr> api_key = key, model = None \<rparr>
      else LocalSummarizer \<lparr> initialized = False, nlp_ready = False \<rparr>)"

text \<open>The method call \<open>summarizer.summarize(text, length)\<close> on either class.\<close>

definition summarize :: "nlp \<Rightarrow> gemini \<Rightarrow> summarizer \<Rightarrow> string \<Rightarrow> string \<Rightarrow> (error + string) \<times> summarizer" where
  "summarize N G s text length' =
     (case s of
        LocalSummarizer self \<Rightarrow>
          (case local_summarize N self text length' of (r, self') \<Rightarrow> (Inr r, LocalSummarizer self'))
      | OnlineSummarizer self \<Rightarrow>
          (case online_summarize G self text length' of (r, self') \<Rightarrow> (r, OnlineSummarizer self')))"

text \<open>The method call \<open>summarizer.extract_key_points(text, max_points)\<close> on either class.\<close>

definition extract_key_points ::
  "nlp \<Rightarrow> gemini \<Rightarrow> summarizer \<Rightarrow> string \<Rightarrow> int \<Rightarrow> (error + string list) \<times> summarizer" where
  "extract_key_points N G s text max_points =
     (case s of
        LocalSummarizer self \<Rightarrow>
          (case local_extract_key_points N self text max_points of
             (r, self') \<Rightarrow> (Inr r, LocalSummarizer self'))
      | OnlineSummarizer self \<Rightarrow>
          (case online_extract_key_points G self text max_points of
             (r, self') \<Rightarrow> (r, OnlineSummarizer self')))"

subsection \<open>A small instance of the natural-language parameter\<close>

text \<open>
  Sentences end at a full stop; the terms of a text are its lower-cased words outside a
  short stopword list; a sentence scores its length.
\<close>

definition simple_sentences :: "string \<Rightarrow> string list" where
  "simple_sentences text =
     (let ps = split_on (CHR ''.'') text in
      filter (\<lambda>s. s \<noteq> []) (map strip (map (\<lambda>p. p @ ''.'') (butlast ps) @ [last ps])))"

definition is_letter :: "char \<Rightarrow> bool" where
  "is_letter c =
     (let n = (of_char c :: nat) in (65 \<le> n \<and> n \<le> 90) \<or> (97 \<le> n \<and> n \<le> 122))"

definition stop_words :: "string list" where
  "stop_words = [''the'', ''a'', ''an'', ''and'', ''it'', ''is'', ''of'', ''to'', ''in'', ''that'']"

definition simple_terms :: "string \<Rightarrow> string list" where
  "simple_terms s =
     filter (\<lambda>w. w \<noteq> [] \<and> w \<notin> set stop_words)
       (split_on (CHR '' '') (map (\<lambda>c. if is_letter c then lower_char c else CHR '' '') s))"

definition simple_nlp :: nlp where
  "simple_nlp =
     \<lparr> sentences_of = simple_sentences,
       salience = (\<lambda>sents i. real (length (sents ! i))),
       terms_of = simple_terms,
       topic_sentences = (\<lambda>sents k. take (nat k) sents) \<rparr>"

definition no_gemini :: gemini where
  "no_gemini = \<lparr> generate_content = (\<lambda>m p. Inl (RemoteFailure ''offline'')), bullet = CHR ''*'' \<rparr>"

definition ten_sentences :: string where
  "ten_sentences =
     ''One cat. Two big dogs. Three. Four small red birds. Five. Six fish swim. Seven. Eight. Nine old grey wolves run. Ten.''"

definition only_stopwords :: string where
  "only_stopwords = ''The and it. It is that. Of the.''"

section \<open>app.py and cli.py\<close>

text \<open>
  Both entry points record the method calls they make on the summarizer, in order, so
  that "no summarization was attempted" is a statement about their result.
\<close>

datatype call = SummarizeCall string string | ExtractKeyPointsCall string int

subsection \<open>\<open>POST /api/summarize\<close>\<close>

text \<open>
  The request. Its body is one of: a JSON object (\<open>request.is_json\<close>), with the value
  under \<open>text\<close> and the string under \<open>filename\<close> when present; an upload under \<open>file\<close>,
  with \<open>file.filename\<close> and what \<open>parse_uploaded_file\<close> returns or raises for it (the
  decoding of the file is the parsing collaborator's); a form with a \<open>text\<close> field and
  maybe a \<open>filename\<close> field; or none of these.
\<close>

datatype payload =
    JsonPayload "pyval option" "string option"
  | FilePayload string "error + string \<times> string"
  | FormPayload string "string option"
  | NoPayload

record request =
  arg_mode :: "string option"
  arg_length :: "string option"
  arg_api_key :: "string option"
  arg_save :: "string option"
  payload :: payload

text \<open>
  The body of a response: \<open>{'error': message}\<close>, \<open>{'error': str(e)}\<close>,
  \<open>{'error': f'Summarization failed: {str(e)}'}\<close>, or the result object.
\<close>

datatype reply =
    ErrorMessage string
  | ErrorOf error
  | SummarizationFailed error
  | Result "(string \<times> pyval) list"

datatype response = Response nat reply

record api_result =
  response :: response
  calls :: "call list"
  db_after :: database

text \<open>\<open>request.args.get(name, default)\<close>.\<close>

definition arg_or :: "string option \<Rightarrow> string \<Rightarrow> string" where
  "arg_or a d = (case a of None \<Rightarrow> d | Some v \<Rightarrow> v)"

text \<open>
  Lines 51 to 66: the text (\<open>None\<close> when no branch assigns it), the filename and the
  file type taken from the request, or the exception that \<open>parse_uploaded_file\<close> raised.
\<close>

definition read_payload :: "payload \<Rightarrow> error + pyval \<times> string \<times> string" where
  "read_payload p =
     (case p of
        JsonPayload t f \<Rightarrow>
          Inr (case t of None \<Rightarrow> PStr [] | Some v \<Rightarrow> v, arg_or f ''pasted_text'', ''text'')
      | FilePayload name parsed \<Rightarrow>
          if name \<noteq> [] then
            (case parsed of Inl e \<Rightarrow> Inl e | Inr (t, file_type) \<Rightarrow> Inr (PStr t, name, file_type))
          else Inr (PNone, ''pasted_text'', ''text'')
      | FormPayload t f \<Rightarrow> Inr (PStr t, arg_or f ''pasted_text'', ''text'')
      | NoPayload \<Rightarrow> Inr (PNone, ''pasted_text'', ''text''))"

text \<open>
  The two \<open>except\<close> clauses of the handler; \<open>JSONDecodeError\<close> is a subclass of
  \<open>ValueError\<close>.
\<close>

definition summarize_failed :: "error \<Rightarrow> response" where
  "summarize_failed e =
     (case e of
        ValueError m \<Rightarrow> Response 400 (ErrorOf e)
      | JSONDecodeError \<Rightarrow> Response 400 (ErrorOf e)
      | _ \<Rightarrow> Response 500 (SummarizationFailed e))"

text \<open>Lines 71 to 102: the work on a text that passed the check of line 68.\<close>

definition summarize_text ::
  "nlp \<Rightarrow> gemini \<Rightarrow> json_module \<Rightarrow> string \<Rightarrow> string \<Rightarrow> string \<Rightarrow> string \<Rightarrow> bool
     \<Rightarrow> string \<Rightarrow> string \<Rightarrow> string \<Rightarrow> database \<Rightarrow> api_result" where
  "summarize_text N G J now mode length' key should_save text filename file_type db =
     (let summarizer = get_summarizer mode (if mode = ''online'' then Some key else None) in
      case summarize N G summarizer text length' of
        (Inl e, s1) \<Rightarrow>
          \<lparr> response = summarize_failed e, calls = [SummarizeCall text length'], db_after = db \<rparr>
      | (Inr summary, s1) \<Rightarrow>
          (case extract_key_points N G s1 text 5 of
             (Inl e, s2) \<Rightarrow>
               \<lparr> response = summarize_failed e,
                 calls = [SummarizeCall text length', ExtractKeyPointsCall text 5], db_after = db \<rparr>
           | (Inr key_points, s2) \<Rightarrow>
               (let result =
                      [(''summary'', PStr summary),
                       (''key_points'', PList (map PStr key_points)),
                       (''mode'', PStr mode),
                       (''length'', PStr length'),
                       (''filename'', PStr filename),
                       (''file_type'', PStr file_type),
                       (''original_length'', PInt (int (length text))),
                       (''summary_length'', PInt (int (length summary)))];
                    cs = [SummarizeCall text length', ExtractKeyPointsCall text 5]
                in if should_save then
                     (case save_summary J now filename text summary key_points mode length'
                             file_type db of
                        Inl e \<Rightarrow> \<lparr> response = summarize_failed e, calls = cs, db_after = db \<rparr>
                      | Inr (summary_id, db') \<Rightarrow>
                          \<lparr> response = Response 200 (Result (result @ [(''saved_id'', PInt summary_id)])),
                            calls = cs, db_after = db' \<rparr>)
                   else \<lparr> response = Response 200 (Result result), calls = cs, db_after = db \<rparr>)))"

text \<open>
  The handler \<open>summarize\<close> of \<open>app.py\<close>. A truthy value that is not a string has no
  \<open>strip\<close>: the \<open>AttributeError\<close> reaches the last \<open>except\<close> clause.
\<close>

definition api_summarize ::
  "nlp \<Rightarrow> gemini \<Rightarrow> json_module \<Rightarrow> string \<Rightarrow> request \<Rightarrow> database \<Rightarrow> api_result" where
  "api_summarize N G J now request db =
     (let mode = arg_or (arg_mode request) ''local'';
          length' = arg_or (arg_length request) ''medium'';
          key = arg_or (arg_api_key request) [];
          should_save = (lower (arg_or (arg_save request) ''false'') = ''true'')
      in case read_payload (payload request) of
           Inl e \<Rightarrow> \<lparr> response = summarize_failed e, calls = [], db_after = db \<rparr>
         | Inr (text, filename, file_type) \<Rightarrow>
             if \<not> truthy text then
               \<lparr> response = Response 400 (ErrorMessage ''No text provided''), calls = [], db_after = db \<rparr>
             else
               (case text of
                  PStr t \<Rightarrow>
                    if strip t = [] then
                      \<lparr> response = Response 400 (ErrorMessage ''No text provided''), calls = [],
                        db_after = db \<rparr>
                    else summarize_text N G J now mode length' key should_save t filename file_type db
                | _ \<Rightarrow> \<lparr> response = summarize_failed AttributeError, calls = [], db_after = db \<rparr>))"

subsection \<open>The command \<open>summarize\<close> of \<open>cli.py\<close>\<close>

text \<open>What \<open>click.echo\<close> prints, one constructor per message of the command.\<close>

datatype message =
    Parsing string
  | NoTextContent
  | DocumentInfo string nat
  | ApiKeyRequired
  | Generating string string
  | SummaryShown string
  | KeyPointsShown "string list"
  | SavedWithId int
  | OutputSavedTo string
  | Done
  | ErrorText error

text \<open>
  The outcome of a run: the exit status (0 when the command returns), the messages on
  standard output and on standard error, the calls made on the summarizer, the database,
  and the file written for \<open>--output\<close> with its content.
\<close>

record cli_result =
  exit_code :: nat
  stdout :: "message list"
  stderr :: "message list"
  cli_calls :: "call list"
  cli_db :: database
  written :: "(string \<times> string) option"

text \<open>The lines written to the \<open>--output\<close> file.\<close>

fun numbered :: "nat \<Rightarrow> string list \<Rightarrow> string" where
  "numbered i [] = []"
| "numbered i (p # ps) = show_int (int i) @ ''. '' @ p @ [CHR 0x0A] @ numbered (Suc i) ps"

definition output_text :: "string \<Rightarrow> string \<Rightarrow> string list \<Rightarrow> string" where
  "output_text name summary key_points =
     ''Summary of: '' @ name @ [CHR 0x0A]
     @ replicate 60 (CHR ''='') @ [CHR 0x0A, CHR 0x0A]
     @ ''SUMMARY:'' @ [CHR 0x0A]
     @ summary @ [CHR 0x0A, CHR 0x0A]
     @ ''KEY POINTS:'' @ [CHR 0x0A]
     @ numbered 1 key_points"

text \<open>
  The command on a file whose base name is \<open>name\<close> and for which \<open>detect_and_parse\<close>
  returns or raises \<open>parsed\<close>. \<open>sys.exit(1)\<close> raises \<open>SystemExit\<close>, which the clause
  \<open>except Exception\<close> does not catch.
\<close>

definition cli_summarize ::
  "nlp \<Rightarrow> gemini \<Rightarrow> json_module \<Rightarrow> string \<Rightarrow> string \<Rightarrow> (error + string \<times> string) \<Rightarrow> string \<Rightarrow> string
     \<Rightarrow> string option \<Rightarrow> bool \<Rightarrow> string option \<Rightarrow> database \<Rightarrow> cli_result" where
  "cli_summarize N G J now name parsed mode length' key save output db =
     (case parsed of
        Inl e \<Rightarrow>
          \<lparr> exit_code = 1, stdout = [Parsing name], stderr = [ErrorText e], cli_calls = [],
            cli_db = db, written = None \<rparr>
      | Inr (text, file_type) \<Rightarrow>
          if strip text = [] then
            \<lparr> exit_code = 1, stdout = [Parsing name], stderr = [NoTextContent], cli_calls = [],
              cli_db = db, written = None \<rparr>
          else if mode = ''online'' \<and> (key = None \<or> key = Some []) then
            \<lparr> exit_code = 1, stdout = [Parsing name, DocumentInfo file_type (length text)],
              stderr = [ApiKeyRequired], cli_calls = [], cli_db = db, written = None \<rparr>
          else
            (let out1 = [Parsing name, DocumentInfo file_type (length text), Generating length' mode];
                 summarizer = get_summarizer mode key
             in case summarize N G summarizer text length' of
                  (Inl e, s1) \<Rightarrow>
                    \<lparr> exit_code = 1, stdout = out1, stderr = [ErrorText e],
                      cli_calls = [SummarizeCall text length'], cli_db = db, written = None \<rparr>
                | (Inr summary, s1) \<Rightarrow>
                    (case extract_key_points N G s1 text 5 of
                       (Inl e, s2) \<Rightarrow>
                         \<lparr> exit_code = 1, stdout = out1, stderr = [ErrorText e],
                           cli_calls = [SummarizeCall text length', ExtractKeyPointsCall text 5],
                           cli_db = db, written = None \<rparr>
                     | (Inr key_points, s2) \<Rightarrow>
                         (let out2 = out1 @ [SummaryShown summary, KeyPointsShown key_points];
                              cs = [SummarizeCall text length', ExtractKeyPointsCall text 5]
                          in case (if save then
                                     (case save_summary J now name text summary key_points mode
                                             length' file_type db of
                                        Inl e \<Rightarrow> Inl e
                                      | Inr (summary_id, db') \<Rightarrow> Inr ([SavedWithId summary_id], db'))
                                   else Inr ([], db)) of
                               Inl e \<Rightarrow>
                                 \<lparr> exit_code = 1, stdout = out2, stderr = [ErrorText e],
                                   cli_calls = cs, cli_db = db, written = None \<rparr>
                             | Inr saved \<Rightarrow>
                                 (let file = (case output of
                                                None \<Rightarrow> None
                                              | Some path \<Rightarrow>
                                                  if path = [] then None
                                                  else Some (path, output_text name summary key_points))
                                  in \<lparr> exit_code = 0,
                                       stdout = out2 @ fst saved
                                         @ (case file of None \<Rightarrow> []
                                            | Some (path, c) \<Rightarrow> [OutputSavedTo path])
                                         @ [Done],
                                       stderr = [],
                                       cli_calls = cs,
                                       cli_db = snd saved,
                                       written = file \<rparr>)))))"

text \<open>
  The handlers \<open>get_summary_by_id\<close> and \<open>delete_summary_by_id\<close> of \<open>app.py\<close>. The
  converter \<open>int\<close> of the route accepts every sequence of digits, so the id is any
  natural number; every exception is answered with status 500.
\<close>

definition get_summary_by_id :: "json_module \<Rightarrow> int \<Rightarrow> database \<Rightarrow> response" where
  "get_summary_by_id J summary_id db =
     (case get_summary J summary_id db of
        Inl e \<Rightarrow> Response 500 (ErrorOf e)
      | Inr None \<Rightarrow> Response 404 (ErrorMessage ''Summary not found'')
      | Inr (Some summary) \<Rightarrow>
          if truthy (PDict summary) then Response 200 (Result summary)
          else Response 404 (ErrorMessage ''Summary not found''))"

definition delete_summary_by_id :: "int \<Rightarrow> database \<Rightarrow> response \<times> database" where
  "delete_summary_by_id summary_id db =
     (case delete_summary summary_id db of
        Inl e \<Rightarrow> (Response 500 (ErrorOf e), db)
      | Inr (deleted, db') \<Rightarrow>
          if deleted then (Response 200 (Result [(''success'', PBool True)]), db')
          else (Response 404 (ErrorMessage ''Summary not found''), db'))"

subsection \<open>Concrete requests\<close>

definition blank_request :: request where
  "blank_request =
     \<lparr> arg_mode = None, arg_length = None, arg_api_key = None, arg_save = Some ''true'',
       payload = JsonPayload (Some (PStr [CHR '' '', CHR 0x09, CHR 0x0A])) None \<rparr>"

section \<open>Properties of storage.py\<close>

lemma find_filter_neq: "find (\<lambda>r. col_id r = i) (filter (\<lambda>r. col_id r \<noteq> i) rs) = None"
  by (induction rs) auto

lemma filter_eq_nonempty_iff_find:
  "(filter (\<lambda>r. col_id r = i) rs \<noteq> []) = (find (\<lambda>r. col_id r = i) rs \<noteq> None)"
  by (induction rs) auto

lemma sqlite_int_bounds: "sqlite_int (2 ^ 63 - 1)" "sqlite_int (- (2 ^ 63))" "\<not> sqlite_int (2 ^ 63)"
  by (simp_all add: sqlite_int_def)

text \<open>
  Within the range of SQLite integers the two functions do what their docstrings say:
  \<open>delete_summary\<close> returns \<open>True\<close> exactly when a row with the id existed, and
  \<open>get_summary\<close> of the id on the database it leaves reports not found.
\<close>

lemma delete_summary_in_range:
  assumes "sqlite_int i"
  shows "delete_summary i db =
           Inr (i \<in> col_id ` set (summaries db),
                db\<lparr> summaries := filter (\<lambda>r. col_id r \<noteq> i) (summaries db) \<rparr>)
       \<and> get_summary J i (db\<lparr> summaries := filter (\<lambda>r. col_id r \<noteq> i) (summaries db) \<rparr>) = Inr None"
proof -
  have c: "(filter (\<lambda>r. col_id r = i) (summaries db) \<noteq> []) = (i \<in> col_id ` set (summaries db))"
    by (auto simp: filter_empty_conv)
  have d: "delete_summary i db =
           Inr (i \<in> col_id ` set (summaries db),
                db\<lparr> summaries := filter (\<lambda>r. col_id r \<noteq> i) (summaries db) \<rparr>)"
    using assms c by (simp add: delete_summary_def init_db_def Let_def)
  have g: "get_summary J i (db\<lparr> summaries := filter (\<lambda>r. col_id r \<noteq> i) (summaries db) \<rparr>) = Inr None"
    using assms by (simp add: get_summary_def init_db_def find_filter_neq)
  from d g show ?thesis by simp
qed

text \<open>
  C8. The claim fails on the code for an id that no row can have: for the id \<open>2^63\<close>,
  on every database, \<open>delete_summary\<close> does not return \<open>False\<close> and \<open>get_summary\<close> does
  not report not found; both raise \<open>OverflowError\<close>, and the handler of
  \<open>DELETE /api/summaries/<id>\<close> answers 500 where a missing id is answered 404.
\<close>

theorem delete_summary_overflow:
  "delete_summary (2 ^ 63) db = Inl OverflowError
   \<and> get_summary J (2 ^ 63) db = Inl OverflowError
   \<and> delete_summary_by_id (2 ^ 63) db = (Response 500 (ErrorOf OverflowError), db)
   \<and> delete_summary_by_id (2 ^ 63 - 1) empty_db
       = (Response 404 (ErrorMessage ''Summary not found''), empty_db)"
proof -
  have a: "delete_summary (2 ^ 63) db = Inl OverflowError"
    by (simp add: delete_summary_def init_db_def sqlite_int_def)
  have b: "get_summary J (2 ^ 63) db = Inl OverflowError"
    by (simp add: get_summary_def init_db_def sqlite_int_def)
  have c: "delete_summary_by_id (2 ^ 63) db = (Response 500 (ErrorOf OverflowError), db)"
    unfolding delete_summary_by_id_def a by simp
  have e: "delete_summary (2 ^ 63 - 1) empty_db = Inr (False, empty_db)"
    using delete_summary_in_range[OF sqlite_int_bounds(1), of empty_db]
    by (simp add: empty_db_def)
  have d: "delete_summary_by_id (2 ^ 63 - 1) empty_db
       = (Response 404 (ErrorMessage ''Summary not found''), empty_db)"
    unfolding delete_summary_by_id_def e by simp
  from a b c d show ?thesis by simp
qed

lemma fold_max_ge_init: "(a::int) \<le> fold max xs a"
  by (induction xs arbitrary: a) (auto intro: order_trans[OF max.cobounded2])

lemma fold_max_ge_elem: "x \<in> set xs \<Longrightarrow> (x::int) \<le> fold max xs a"
proof (induction xs arbitrary: a)
  case Nil
  then show ?case by simp
next
  case (Cons y ys)
  show ?case
  proof (cases "x = y")
    case True
    have "max y a \<le> fold max ys (max y a)" by (rule fold_max_ge_init)
    with True show ?thesis by simp
  next
    case False
    with Cons show ?thesis by simp
  qed
qed

lemma largest_rowid_nonneg: "0 \<le> largest_rowid db"
  using fold_max_ge_init[of "int (sqlite_sequence db)" "map col_id (summaries db)"]
  by (simp add: largest_rowid_def)

lemma next_rowid_fresh: "r \<in> set (summaries db) \<Longrightarrow> col_id r < next_rowid db"
  using fold_max_ge_elem[of "col_id r" "map col_id (summaries db)" "int (sqlite_sequence db)"]
  by (simp add: next_rowid_def largest_rowid_def)

lemma find_append_fresh:
  "\<forall>r \<in> set rs. \<not> P r \<Longrightarrow> P new \<Longrightarrow> find P (rs @ [new]) = Some new"
  by (induction rs) auto

lemma key_points_in_dict_of_row:
  "map_of (dict_of_row row) ''key_points'' = Some (sql_text (col_key_points row))"
  by (simp add: dict_of_row_def)

lemma dict_from_row_null:
  "col_key_points row = None \<Longrightarrow> dict_from_row J row = Inr (dict_of_row row)"
  unfolding dict_from_row_def Let_def key_points_in_dict_of_row
  by (simp add: sql_text_def)

lemma dict_from_row_empty:
  "col_key_points row = Some [] \<Longrightarrow> dict_from_row J row = Inr (dict_of_row row)"
  unfolding dict_from_row_def Let_def key_points_in_dict_of_row
  by (simp add: sql_text_def)

lemma dict_from_row_text:
  "col_key_points row = Some t \<Longrightarrow> t \<noteq> [] \<Longrightarrow>
   dict_from_row J row =
     (case loads J t of
        Inr v \<Rightarrow> Inr (AList.update ''key_points'' v (dict_of_row row))
      | Inl JSONDecodeError \<Rightarrow> Inr (AList.update ''key_points'' (PList []) (dict_of_row row))
      | Inl e \<Rightarrow> Inl e)"
  unfolding dict_from_row_def Let_def key_points_in_dict_of_row
  by (simp add: sql_text_def)

lemma map_of_update_key_points:
  "map_of (AList.update ''key_points'' v (dict_of_row row)) ''key_points'' = Some v"
  by (simp add: update_conv')

text \<open>
  An exception of \<open>json.loads\<close> other than \<open>JSONDecodeError\<close> is not caught by
  \<open>dict_from_row\<close>: \<open>get_summary\<close> raises it.
\<close>

lemma get_summary_other_exception:
  assumes "sqlite_int i" and "find (\<lambda>r. col_id r = i) (summaries db) = Some row"
    and "col_key_points row = Some t" and "t \<noteq> []"
    and "loads J t = Inl e" and "e \<noteq> JSONDecodeError"
  shows "get_summary J i db = Inl e"
  using assms
  by (cases e) (simp_all add: get_summary_def init_db_def dict_from_row_text)

text \<open>
  C10 (as amended). For a stored row, read by its id: when the \<open>key_points\<close> text is
  not empty and \<open>json.loads\<close> rejects it with \<open>JSONDecodeError\<close>, \<open>get_summary\<close> returns
  the record with \<open>key_points\<close> equal to the empty list; when \<open>json.loads\<close> accepts the
  text, with the decoded value; when the column is \<open>NULL\<close> or the empty string, the
  guard \<open>data['key_points']\<close> is false, the decoder is not called and the record holds
  the stored value unchanged.
\<close>

theorem get_summary_key_points_decoding:
  assumes "sqlite_int i" and "find (\<lambda>r. col_id r = i) (summaries db) = Some row"
  shows "(col_key_points row = None \<longrightarrow>
            get_summary J i db = Inr (Some (dict_of_row row))
            \<and> key_points_of (get_summary J i db) = Some PNone)
       \<and> (col_key_points row = Some [] \<longrightarrow>
            get_summary J i db = Inr (Some (dict_of_row row))
            \<and> key_points_of (get_summary J i db) = Some (PStr []))
       \<and> (\<forall>t. col_key_points row = Some t \<and> t \<noteq> [] \<and> loads J t = Inl JSONDecodeError \<longrightarrow>
            get_summary J i db = Inr (Some (AList.update ''key_points'' (PList []) (dict_of_row row)))
            \<and> key_points_of (get_summary J i db) = Some (PList []))
       \<and> (\<forall>t v. col_key_points row = Some t \<and> t \<noteq> [] \<and> loads J t = Inr v \<longrightarrow>
            get_summary J i db = Inr (Some (AList.update ''key_points'' v (dict_of_row row)))
            \<and> key_points_of (get_summary J i db) = Some v)"
proof -
  have g: "get_summary J i db =
             (case dict_from_row J row of Inl e \<Rightarrow> Inl e | Inr d \<Rightarrow> Inr (Some d))"
    using assms by (simp add: get_summary_def init_db_def)
  have a: "col_key_points row = None \<longrightarrow>
            get_summary J i db = Inr (Some (dict_of_row row))
            \<and> key_points_of (get_summary J i db) = Some PNone"
    by (simp add: g dict_from_row_null key_points_of_def key_points_in_dict_of_row sql_text_def)
  have b: "col_key_points row = Some [] \<longrightarrow>
            get_summary J i db = Inr (Some (dict_of_row row))
            \<and> key_points_of (get_summary J i db) = Some (PStr [])"
    by (simp add: g dict_from_row_empty key_points_of_def key_points_in_dict_of_row sql_text_def)
  have c: "\<forall>t. col_key_points row = Some t \<and> t \<noteq> [] \<and> loads J t = Inl JSONDecodeError \<longrightarrow>
            get_summary J i db = Inr (Some (AList.update ''key_points'' (PList []) (dict_of_row row)))
            \<and> key_points_of (get_summary J i db) = Some (PList [])"
    by (simp add: g dict_from_row_text key_points_of_def map_of_update_key_points)
  have d: "\<forall>t v. col_key_points row = Some t \<and> t \<noteq> [] \<and> loads J t = Inr v \<longrightarrow>
            get_summary J i db = Inr (Some (AList.update ''key_points'' v (dict_of_row row)))
            \<and> key_points_of (get_summary J i db) = Some v"
    by (simp add: g dict_from_row_text key_points_of_def map_of_update_key_points)
  from a b c d show ?thesis by blast
qed

text \<open>A row whose \<open>key_points\<close> text is \<open>not json\<close> is read back with the empty list.\<close>

theorem get_summary_key_points_decoding_witness:
  "sqlite_int 1
   \<and> loads reference_json ''not json'' = Inl JSONDecodeError
   \<and> key_points_of (get_summary reference_json 1 (one_row_db (Some ''not json''))) = Some (PList [])"
proof -
  have r: "sqlite_int 1"
    by (simp add: sqlite_int_def)
  have f: "find (\<lambda>r. col_id r = 1) (summaries (one_row_db (Some ''not json'')))
             = Some (row_with_key_points 1 (Some ''not json''))"
    by (simp add: one_row_db_def row_with_key_points_def)
  have k: "col_key_points (row_with_key_points 1 (Some ''not json'')) = Some ''not json''"
    by (simp add: row_with_key_points_def)
  have l: "loads reference_json ''not json'' = Inl JSONDecodeError"
    unfolding reference_json_def by code_simp
  have n: "''not json'' \<noteq> []"
    by simp
  from get_summary_key_points_decoding[OF r f, of reference_json] k l n
  have "key_points_of (get_summary reference_json 1 (one_row_db (Some ''not json''))) = Some (PList [])"
    by blast
  with r l show ?thesis
    by (intro conjI)
qed

text \<open>
  C10 as stated fails on the empty string: it cannot be parsed as JSON, and the record
  that \<open>get_summary\<close> returns still holds the empty string, not the empty list.
\<close>

theorem get_summary_empty_key_points_counterexample:
  "loads reference_json [] = Inl JSONDecodeError
   \<and> key_points_of (get_summary reference_json 1 (one_row_db (Some []))) = Some (PStr [])"
proof -
  have l: "loads reference_json [] = Inl JSONDecodeError"
    unfolding reference_json_def by code_simp
  have r: "sqlite_int 1"
    by (simp add: sqlite_int_def)
  have f: "find (\<lambda>r. col_id r = 1) (summaries (one_row_db (Some [])))
             = Some (row_with_key_points 1 (Some []))"
    by (simp add: one_row_db_def row_with_key_points_def)
  have c: "col_key_points (row_with_key_points 1 (Some [])) = Some []"
    by (simp add: row_with_key_points_def)
  have g: "key_points_of (get_summary reference_json 1 (one_row_db (Some []))) = Some (PStr [])"
    using f r
    by (simp add: get_summary_def init_db_def dict_from_row_empty[OF c] key_points_of_def
        key_points_in_dict_of_row sql_text_def c)
  from l g show ?thesis by simp
qed

lemma save_summary_result:
  "save_summary J now filename original_text summary key_points mode length' file_type db
     = Inr (sid, db')
   \<Longrightarrow> sid = next_rowid db \<and> largest_rowid db < 2 ^ 63 - 1
     \<and> summaries db' = summaries db @
          [\<lparr> col_id = sid, col_filename = Some filename, col_original_text = Some original_text,
             col_summary = Some summary,
             col_key_points = Some (dumps J (PList (map PStr key_points))),
             col_mode = Some mode, col_length = Some length', col_file_type = Some file_type,
             col_created_at = Some now \<rparr>]"
  by (auto simp: save_summary_def init_db_def Let_def split: if_splits)

lemma saved_id_is_sqlite_int:
  "sid = next_rowid db \<Longrightarrow> largest_rowid db < 2 ^ 63 - 1 \<Longrightarrow> sqlite_int sid"
  using largest_rowid_nonneg[of db] by (simp add: next_rowid_def sqlite_int_def)

lemma update_key_points_saved_row:
  "AList.update ''key_points'' (PList (map PStr key_points))
     (dict_of_row \<lparr> col_id = sid, col_filename = Some filename,
        col_original_text = Some original_text, col_summary = Some summary,
        col_key_points = Some kp_text, col_mode = Some mode, col_length = Some length',
        col_file_type = Some file_type, col_created_at = Some now \<rparr>)
   = saved_record sid now filename original_text summary key_points mode length' file_type"
  by (simp add: dict_of_row_def saved_record_def sql_text_def)

lemma structured_fields_saved_record:
  "structured_fields (saved_record sid now filename original_text summary key_points mode length' file_type)
   = [Some (PStr filename), Some (PStr summary), Some (PList (map PStr key_points)),
      Some (PStr mode), Some (PStr length'), Some (PStr file_type)]"
  by (simp add: structured_fields_def saved_record_def)

text \<open>
  C7. When \<open>save_summary\<close> returned \<open>sid\<close>, \<open>get_summary\<close> of \<open>sid\<close> on the resulting
  database returns a record whose \<open>filename\<close>, \<open>summary\<close>, \<open>key_points\<close>, \<open>mode\<close>,
  \<open>length\<close> and \<open>file_type\<close> are the arguments of the save, and parsing the output of
  \<open>export_summary\<close> in the format \<open>json\<close> gives that record back. The hypotheses are
  the contract of the \<open>json\<close> library on the two values it is applied to: the encoded
  \<open>key_points\<close> list is a non-empty text that decodes to the list, and the indented
  encoding of the record decodes to the record.
\<close>

theorem save_get_export_round_trip:
  assumes saved: "save_summary J now filename original_text summary key_points mode length' file_type db
                    = Inr (sid, db')"
    and rcd: "rcd = saved_record sid now filename original_text summary key_points mode length' file_type"
    and kp_nonempty: "dumps J (PList (map PStr key_points)) \<noteq> []"
    and kp_rt: "loads J (dumps J (PList (map PStr key_points))) = Inr (PList (map PStr key_points))"
    and rcd_rt: "loads J (dumps_indent J (PDict rcd)) = Inr (PDict rcd)"
  shows "get_summary J sid db' = Inr (Some rcd)
       \<and> structured_fields rcd =
           [Some (PStr filename), Some (PStr summary), Some (PList (map PStr key_points)),
            Some (PStr mode), Some (PStr length'), Some (PStr file_type)]
       \<and> (\<exists>out. export_summary J render_txt sid ''json'' db' = Inr (Some out)
             \<and> loads J out = Inr (PDict rcd))"
proof -
  let ?new = "\<lparr> col_id = sid, col_filename = Some filename, col_original_text = Some original_text,
             col_summary = Some summary,
             col_key_points = Some (dumps J (PList (map PStr key_points))),
             col_mode = Some mode, col_length = Some length', col_file_type = Some file_type,
             col_created_at = Some now \<rparr>"
  from save_summary_result[OF saved]
  have sid: "sid = next_rowid db" and room: "largest_rowid db < 2 ^ 63 - 1"
    and rows: "summaries db' = summaries db @ [?new]"
    by simp_all
  have in_range: "sqlite_int sid"
    by (rule saved_id_is_sqlite_int[OF sid room])
  have fresh: "\<forall>r \<in> set (summaries db). \<not> col_id r = sid"
    using next_rowid_fresh[of _ db] sid by fastforce
  have found: "find (\<lambda>r. col_id r = sid) (summaries db') = Some ?new"
    unfolding rows by (rule find_append_fresh[OF fresh]) simp
  have "col_key_points ?new = Some (dumps J (PList (map PStr key_points)))"
    by simp
  from dict_from_row_text[OF this kp_nonempty, of J]
  have row: "dict_from_row J ?new = Inr rcd"
    unfolding rcd by (simp add: kp_rt update_key_points_saved_row)
  have get: "get_summary J sid db' = Inr (Some rcd)"
    by (simp add: get_summary_def init_db_def in_range found row)
  have nonempty: "rcd \<noteq> []"
    unfolding rcd saved_record_def by simp
  have export: "export_summary J render_txt sid ''json'' db' = Inr (Some (dumps_indent J (PDict rcd)))"
    by (simp add: export_summary_def get nonempty)
  have fields: "structured_fields rcd =
           [Some (PStr filename), Some (PStr summary), Some (PList (map PStr key_points)),
            Some (PStr mode), Some (PStr length'), Some (PStr file_type)]"
    unfolding rcd by (rule structured_fields_saved_record)
  from get export rcd_rt fields show ?thesis
    by simp
qed

text \<open>The round trip on the empty database, with the reference codec.\<close>

theorem save_get_export_round_trip_witness:
  "example_saved = Inr (1, example_db)
   \<and> get_summary reference_json 1 example_db = Inr (Some example_record)
   \<and> structured_fields example_record =
       [Some (PStr ''notes.txt''), Some (PStr ''Alpha. Beta.''),
        Some (PList [PStr ''Alpha.'', PStr ''Beta.'']),
        Some (PStr ''local''), Some (PStr ''short''), Some (PStr ''text'')]
   \<and> (\<exists>out. export_summary reference_json (\<lambda>d. Inl TypeError) 1 ''json'' example_db
               = Inr (Some out)
         \<and> loads reference_json out = Inr (PDict example_record))"
proof -
  have zero: "largest_rowid empty_db = 0"
    by (simp add: largest_rowid_def empty_db_def)
  have one: "next_rowid empty_db = 1"
    by (simp add: next_rowid_def zero)
  have saved': "example_saved = Inr (1, example_db)"
    unfolding example_db_def
    by (simp add: example_saved_def save_summary_def init_db_def Let_def zero one)
  then have saved: "save_summary reference_json ''2024-01-01 10:00:00'' ''notes.txt''
       ''Alpha. Beta. Gamma.'' ''Alpha. Beta.'' [''Alpha.'', ''Beta.''] ''local'' ''short'' ''text''
       empty_db = Inr (1, example_db)"
    by (simp add: example_saved_def)
  have kp1: "dumps reference_json (PList (map PStr [''Alpha.'', ''Beta.''])) \<noteq> []"
    unfolding reference_json_def by code_simp
  have kp2: "loads reference_json (dumps reference_json (PList (map PStr [''Alpha.'', ''Beta.''])))
               = Inr (PList (map PStr [''Alpha.'', ''Beta.'']))"
    unfolding reference_json_def by code_simp
  have rt: "loads reference_json (dumps_indent reference_json (PDict example_record))
              = Inr (PDict example_record)"
    unfolding reference_json_def example_record_def saved_record_def by code_simp
  from save_get_export_round_trip[OF saved example_record_def kp1 kp2 rt] saved'
  show ?thesis by simp
qed

section \<open>Properties of summarizers.py\<close>

lemma sentence_count_cases:
  "sentence_count l = (if l = ''short'' then 3 else if l = ''medium'' then 5 else if l = ''long'' then 8 else 5)"
  by (simp add: sentence_count_def sentence_counts_def)












text \<open>
  C2. The tier table: \<open>short\<close> asks for 3 sentences, \<open>medium\<close> for 5, \<open>long\<close> for 8, and
  \<open>summarize\<close> passes exactly that count to the ranking summarizer.
\<close>

theorem sentence_count_table:
  "sentence_count ''short'' = 3 \<and> sentence_count ''medium'' = 5 \<and> sentence_count ''long'' = 8
   \<and> fst (local_summarize N self text ''short'') =
       (let summary = intercalate '' '' (text_rank_summarizer N text 3)
        in if summary \<noteq> [] then summary else take 500 text @ ''...'')
   \<and> fst (local_summarize N self text ''medium'') =
       (let summary = intercalate '' '' (text_rank_summarizer N text 5)
        in if summary \<noteq> [] then summary else take 500 text @ ''...'')
   \<and> fst (local_summarize N self text ''long'') =
       (let summary = intercalate '' '' (text_rank_summarizer N text 8)
        in if summary \<noteq> [] then summary else take 500 text @ ''...'')"
  by (simp add: sentence_count_cases local_summarize_def Let_def)

text \<open>
  C9. A length outside \<open>short\<close>, \<open>medium\<close>, \<open>long\<close> does not fail: the count is 5,
  the summary returned is the one built from the five sentences that the ranking
  summarizer selects (or the prefix of the text when it selects nothing), and the call
  returns what it returns for \<open>medium\<close>.
\<close>

theorem unknown_length_is_medium:
  assumes "length' \<notin> {''short'', ''medium'', ''long''}"
  shows "sentence_count length' = 5
       \<and> fst (local_summarize N self text length') =
           (let summary = intercalate '' '' (text_rank_summarizer N text 5)
            in if summary \<noteq> [] then summary else take 500 text @ ''...'')
       \<and> local_summarize N self text length' = local_summarize N self text ''medium''"
  using assms by (simp add: sentence_count_cases local_summarize_def Let_def)

lemma ten_sentences_selection_5:
  "text_rank_summarizer simple_nlp ten_sentences 5 =
     [''One cat.'', ''Two big dogs.'', ''Four small red birds.'', ''Six fish swim.'',
      ''Nine old grey wolves run.'']"
  unfolding simple_nlp_def ten_sentences_def by code_simp

text \<open>The length \<open>tiny\<close> on the ten sentences: the five longest, in their order.\<close>

theorem unknown_length_is_medium_witness:
  "''tiny'' \<notin> {''short'', ''medium'', ''long''}
   \<and> sentence_count ''tiny'' = 5
   \<and> fst (local_summarize simple_nlp \<lparr> initialized = False, nlp_ready = False \<rparr> ten_sentences ''tiny'')
       = ''One cat. Two big dogs. Four small red birds. Six fish swim. Nine old grey wolves run.''
   \<and> local_summarize simple_nlp \<lparr> initialized = False, nlp_ready = False \<rparr> ten_sentences ''tiny''
       = local_summarize simple_nlp \<lparr> initialized = False, nlp_ready = False \<rparr> ten_sentences ''medium''"
proof -
  have h: "''tiny'' \<notin> {''short'', ''medium'', ''long''}" by simp
  note t = unknown_length_is_medium[OF h, of simple_nlp
      "\<lparr> initialized = False, nlp_ready = False \<rparr>" ten_sentences]
  have c: "sentence_count ''tiny'' = 5"
    using t by (rule conjunct1)
  have s: "fst (local_summarize simple_nlp \<lparr> initialized = False, nlp_ready = False \<rparr>
                 ten_sentences ''tiny'') =
           (let summary = intercalate '' '' (text_rank_summarizer simple_nlp ten_sentences 5)
            in if summary \<noteq> [] then summary else take 500 ten_sentences @ ''...'')"
    using t by (rule conjunct1[OF conjunct2])
  have s': "fst (local_summarize simple_nlp \<lparr> initialized = False, nlp_ready = False \<rparr>
                 ten_sentences ''tiny'')
       = ''One cat. Two big dogs. Four small red birds. Six fish swim. Nine old grey wolves run.''"
    unfolding s ten_sentences_selection_5 by simp
  have e: "local_summarize simple_nlp \<lparr> initialized = False, nlp_ready = False \<rparr>
             ten_sentences ''tiny''
       = local_summarize simple_nlp \<lparr> initialized = False, nlp_ready = False \<rparr>
             ten_sentences ''medium''"
    using t by (rule conjunct2[OF conjunct2])
  from h c s' e show ?thesis
    by (intro conjI)
qed

lemma lsa_summarizer_no_terms:
  "terms_of N text = [] \<Longrightarrow> lsa_summarizer N text k = []"
  by (simp add: lsa_summarizer_def Let_def)

text \<open>
  C3 (as amended). For a text in which no term survives stopword removal,
  \<open>extract_key_points\<close> returns a value (it raises nothing), and for every \<open>max_points\<close>
  the value is the single entry made of the first 200 characters of the text followed by
  three dots: the topic extractor selects no sentence of such a text, and the fallback
  of line 102 for an empty selection applies.
\<close>

theorem extract_key_points_no_terms:
  assumes "terms_of N text = []"
  shows "fst (local_extract_key_points N self text max_points) = [take 200 text @ ''...'']"
  using assms
  by (simp add: local_extract_key_points_def Let_def lsa_summarizer_no_terms)

lemma only_stopwords_sentences:
  "sentences_of simple_nlp only_stopwords = [''The and it.'', ''It is that.'', ''Of the.'']"
  unfolding simple_nlp_def only_stopwords_def by code_simp

lemma only_stopwords_no_terms: "terms_of simple_nlp only_stopwords = []"
  unfolding simple_nlp_def only_stopwords_def by code_simp

lemma only_stopwords_prefix: "take 200 only_stopwords @ ''...'' = ''The and it. It is that. Of the....''"
  by (simp add: only_stopwords_def)

text \<open>Two key points asked of three sentences of stopwords: the text and three dots.\<close>

theorem extract_key_points_no_terms_witness:
  "terms_of simple_nlp only_stopwords = []
   \<and> fst (local_extract_key_points simple_nlp \<lparr> initialized = False, nlp_ready = False \<rparr>
            only_stopwords 2) = [''The and it. It is that. Of the....'']"
proof -
  have "fst (local_extract_key_points simple_nlp \<lparr> initialized = False, nlp_ready = False \<rparr>
            only_stopwords 2) = [''The and it. It is that. Of the....'']"
    unfolding extract_key_points_no_terms[OF only_stopwords_no_terms] only_stopwords_prefix
    by (rule refl)
  with only_stopwords_no_terms show ?thesis
    by (intro conjI)
qed

text \<open>
  C3 as stated fails for the five key points that both callers ask for: the text of
  stopwords has three sentences, which are its first five, and \<open>extract_key_points\<close>
  returns none of them but one entry, the text followed by three dots.
\<close>

theorem extract_key_points_first_sentences_counterexample:
  "terms_of simple_nlp only_stopwords = []
   \<and> take 5 (sentences_of simple_nlp only_stopwords) = [''The and it.'', ''It is that.'', ''Of the.'']
   \<and> fst (local_extract_key_points simple_nlp \<lparr> initialized = False, nlp_ready = False \<rparr>
            only_stopwords 5) = [''The and it. It is that. Of the....'']"
proof -
  have a: "fst (local_extract_key_points simple_nlp \<lparr> initialized = False, nlp_ready = False \<rparr>
            only_stopwords 5) = [''The and it. It is that. Of the....'']"
    by (simp add: local_extract_key_points_def Let_def
        lsa_summarizer_no_terms[OF only_stopwords_no_terms] only_stopwords_prefix)
  have b: "take 5 (sentences_of simple_nlp only_stopwords)
             = [''The and it.'', ''It is that.'', ''Of the.'']"
    by (simp add: only_stopwords_sentences)
  from only_stopwords_no_terms b a show ?thesis
    by (intro conjI)
qed

lemma get_model_without_key:
  "key = None \<or> key = Some [] \<Longrightarrow>
   get_model \<lparr> api_key = key, model = None \<rparr> = Inl (ValueError api_key_required)"
  by (auto simp: get_model_def)

text \<open>
  C6. The summarizer that \<open>get_summarizer\<close> returns for the mode \<open>online\<close> without a key
  (\<open>None\<close> or the empty string) answers both \<open>summarize\<close> and \<open>extract_key_points\<close>
  with the \<open>ValueError\<close> that asks for an API key, whatever the local libraries would
  have produced: there is no fallback to the local strategy.
\<close>

theorem online_without_key_is_error:
  assumes "key = None \<or> key = Some []"
  shows "get_summarizer ''online'' key = OnlineSummarizer \<lparr> api_key = key, model = None \<rparr>
       \<and> fst (summarize N G (get_summarizer ''online'' key) text length')
           = Inl (ValueError api_key_required)
       \<and> fst (extract_key_points N G (get_summarizer ''online'' key) text max_points)
           = Inl (ValueError api_key_required)"
  using get_model_without_key[OF assms]
  by (simp add: get_summarizer_def summarize_def extract_key_points_def online_summarize_def
      online_extract_key_points_def)

theorem online_without_key_is_error_witness:
  "fst (summarize simple_nlp no_gemini (get_summarizer ''online'' None) ten_sentences ''short'')
     = Inl (ValueError api_key_required)
   \<and> fst (extract_key_points simple_nlp no_gemini (get_summarizer ''online'' None) ten_sentences 5)
     = Inl (ValueError api_key_required)"
  using online_without_key_is_error[of None simple_nlp no_gemini ten_sentences "''short''" 5]
  by blast

section \<open>Properties of app.py and cli.py\<close>

lemma strip_blank:
  assumes "\<forall>c \<in> set t. py_isspace c"
  shows "strip t = []"
proof -
  from assms have d: "dropWhile py_isspace t = []"
    by simp
  show ?thesis
    unfolding strip_def d by simp
qed

text \<open>
  C5. A text that is empty or made of whitespace only is rejected before any call on a
  summarizer: the HTTP handler answers 400 with the error \<open>No text provided\<close>, the
  command exits with status 1 after the message on standard error, and in both the list
  of summarizer calls is empty and the database is unchanged.
\<close>

theorem blank_text_is_rejected:
  assumes "\<forall>c \<in> set t. py_isspace c"
    and "read_payload (payload request) = Inr (PStr t, filename, file_type)"
  shows "api_summarize N G J now request db =
           \<lparr> response = Response 400 (ErrorMessage ''No text provided''), calls = [], db_after = db \<rparr>
       \<and> cli_summarize N G J now name (Inr (t, file_type)) mode length' key save output db =
           \<lparr> exit_code = 1, stdout = [Parsing name], stderr = [NoTextContent], cli_calls = [],
             cli_db = db, written = None \<rparr>"
  using strip_blank[OF assms(1)] assms(2)
  by (simp add: api_summarize_def cli_summarize_def Let_def)

theorem blank_text_is_rejected_witness:
  "py_isspace (CHR '' '') \<and> py_isspace (CHR 0x09) \<and> py_isspace (CHR 0x0A)
   \<and> api_summarize simple_nlp no_gemini reference_json ''2024-01-01 10:00:00'' blank_request empty_db =
       \<lparr> response = Response 400 (ErrorMessage ''No text provided''), calls = [], db_after = empty_db \<rparr>
   \<and> cli_summarize simple_nlp no_gemini reference_json ''2024-01-01 10:00:00'' ''blank.txt''
         (Inr ([CHR '' '', CHR 0x09, CHR 0x0A], ''text'')) ''local'' ''medium'' None True None empty_db =
       \<lparr> exit_code = 1, stdout = [Parsing ''blank.txt''], stderr = [NoTextContent], cli_calls = [],
         cli_db = empty_db, written = None \<rparr>"
proof -
  have b: "\<forall>c \<in> set [CHR '' '', CHR 0x09, CHR 0x0A]. py_isspace c"
    by (simp add: py_isspace_def)
  have p: "read_payload (payload blank_request)
             = Inr (PStr [CHR '' '', CHR 0x09, CHR 0x0A], ''pasted_text'', ''text'')"
    by (simp add: read_payload_def blank_request_def arg_or_def)
  have "py_isspace (CHR '' '') \<and> py_isspace (CHR 0x09) \<and> py_isspace (CHR 0x0A)"
    by (simp add: py_isspace_def)
  with blank_text_is_rejected[OF b p] show ?thesis
    by blast
qed

end
